theory Spec2Isabelle
  imports Complex_Main "HOL-Library.Sublist" "HOL-Library.Char_ord" "HOL-Library.List_Lexorder"
    "HOL-Library.Multiset"
begin

section \<open>The time-series cells of Working\_with\_CloudOptimizedGeoTIFF.ipynb\<close>

text \<open>
  The notebook defines \<^verbatim>\<open>_url\<close>, \<^verbatim>\<open>_stats\<close>, \<^verbatim>\<open>fetch_bbox\<close> and
  \<^verbatim>\<open>_filter_futures\<close>, and runs them from a cell that submits one \<^verbatim>\<open>fetch_bbox\<close>
  call per file to a thread pool, drains the futures and plots the result. Isabelle
  names cannot start with an underscore, so the three private functions are called
  \<open>url\<close>, \<open>stats\<close> and \<open>filter_futures\<close> here.
\<close>

subsection \<open>Exceptions\<close>

text \<open>
  Every constructor stands for a subclass of Python's \<^verbatim>\<open>Exception\<close>, so the clause
  \<^verbatim>\<open>except Exception\<close> of \<^verbatim>\<open>_filter_futures\<close> catches each of them.
  \<open>RequestException\<close> is the base class of what \<^verbatim>\<open>requests.get\<close> raises (connection
  errors, timeouts, invalid URLs); \<open>OtherException\<close> covers what \<^verbatim>\<open>numpy.load\<close> raises
  besides \<open>ValueError\<close> (\<^verbatim>\<open>OSError\<close>, \<^verbatim>\<open>EOFError\<close>, unpickling errors).
\<close>

datatype py_exception =
    NameError string
  | IndexError string
  | TypeError string
  | ValueError string
  | RequestException string
  | OtherException string

subsection \<open>Floats, the area of interest and its bounds\<close>

text \<open>
  A Python float is kept with the text Python prints for it (what an f-string inserts)
  and its value. The notebook's floats are the literals of the GeoJSON polygon, each
  written in the shortest form that reads back to the same float, which is the text
  \<^verbatim>\<open>str\<close> gives.
\<close>

datatype pyfloat = PyFloat (py_str: string) (val: real)

definition titiler_endpoint :: string where
  "titiler_endpoint = ''https://api.cogeo.xyz''"

text \<open>The ring of the polygon in \<^verbatim>\<open>geojson\<close>, as (x, y) positions.\<close>

definition geojson_coordinates :: "(pyfloat \<times> pyfloat) list" where
  "geojson_coordinates =
     [(PyFloat ''-74.1796875'' (- 74.1796875), PyFloat ''45.18978009667531'' 45.18978009667531),
      (PyFloat ''-73.092041015625'' (- 73.092041015625), PyFloat ''45.18978009667531'' 45.18978009667531),
      (PyFloat ''-73.092041015625'' (- 73.092041015625), PyFloat ''46.00459325574482'' 46.00459325574482),
      (PyFloat ''-74.1796875'' (- 74.1796875), PyFloat ''46.00459325574482'' 46.00459325574482),
      (PyFloat ''-74.1796875'' (- 74.1796875), PyFloat ''45.18978009667531'' 45.18978009667531)]"

definition fmin :: "pyfloat \<Rightarrow> pyfloat \<Rightarrow> pyfloat" where
  "fmin a b = (if val b < val a then b else a)"

definition fmax :: "pyfloat \<Rightarrow> pyfloat \<Rightarrow> pyfloat" where
  "fmax a b = (if val a < val b then b else a)"

text \<open>
  \<^verbatim>\<open>rasterio.features.bounds\<close> returns (left, bottom, right, top): the least and
  greatest x and y of the positions. The notebook applies it to the polygon above
  only; with no position at all rasterio raises, which the model gives as a ValueError.
\<close>

definition featureBounds ::
  "(pyfloat \<times> pyfloat) list \<Rightarrow> py_exception + (pyfloat \<times> pyfloat \<times> pyfloat \<times> pyfloat)" where
  "featureBounds ps =
     (case ps of
        [] \<Rightarrow> Inl (ValueError ''not enough values to unpack'')
      | p # qs \<Rightarrow>
          Inr (fold fmin (map fst qs) (fst p), fold fmin (map snd qs) (snd p),
               fold fmax (map fst qs) (fst p), fold fmax (map snd qs) (snd p)))"

text \<open>
  \<^verbatim>\<open>bounds = featureBounds(geojson)\<close> and \<^verbatim>\<open>xmin, ymin, xmax, ymax = bounds\<close>. The
  polygon has positions, so the call returns (see \<open>bounds_value\<close> below).
\<close>

definition bounds :: "pyfloat \<times> pyfloat \<times> pyfloat \<times> pyfloat" where
  "bounds = (case featureBounds geojson_coordinates of
               Inr b \<Rightarrow> b
             | Inl e \<Rightarrow> (PyFloat [] 0, PyFloat [] 0, PyFloat [] 0, PyFloat [] 0))"

definition xmin :: pyfloat where "xmin = fst bounds"
definition ymin :: pyfloat where "ymin = fst (snd bounds)"
definition xmax :: pyfloat where "xmax = fst (snd (snd bounds))"
definition ymax :: pyfloat where "ymax = snd (snd (snd bounds))"

text \<open>The spec's well-formed window: minx \<le> maxx and miny \<le> maxy.\<close>

definition window_ok :: "pyfloat \<times> pyfloat \<times> pyfloat \<times> pyfloat \<Rightarrow> bool" where
  "window_ok b =
     (case b of (x0, y0, x1, y1) \<Rightarrow> val x0 \<le> val x1 \<and> val y0 \<le> val y1)"

subsection \<open>Requests and the remote collaborator\<close>

datatype param_value = PStr string | PInt int

record request =
  http_method :: string
  req_url :: string
  req_params :: "(string \<times> param_value) list"

record response =
  status_code :: nat
  content :: string

text \<open>
  Arrays as numpy stores them: a shape and the elements in row-major order. Samples
  are reals: the maximum and the test against 0 need no rounding (NaN is left out).
\<close>

datatype ndarray = NDArray (shape: "nat list") (flat: "real list")

text \<open>
  The last entry \<^verbatim>\<open>v[-1]\<close> of an object, as \<^verbatim>\<open>_stats\<close> receives it for its
  \<^verbatim>\<open>mask\<close>: an array, or any other object, of which \<^verbatim>\<open>_stats\<close> reads only the truth
  value of \<^verbatim>\<open>mask == 0\<close>.
\<close>

datatype last_entry = ArrayEntry ndarray | PlainEntry bool

text \<open>
  What lies outside the notebook's code. The service answering a GET: \<^verbatim>\<open>requests.get\<close>
  returns a response for every HTTP status and raises only when no response arrives.
  \<^verbatim>\<open>numpy.load\<close> decoding the body. And what subscripting with -1 gives for an
  object that is not an array: a string, a list or a tuple has a last entry unless it
  is empty, a number, a function or a module raises TypeError, a dict raises KeyError
  unless it has the key -1. The calls subscript one global only, \<open>mask\<close>, so a session
  has one such object at most.
\<close>

record collab =
  respond :: "request \<Rightarrow> py_exception + response"
  numpy_load :: "string \<Rightarrow> py_exception + ndarray"
  other_last :: "py_exception + last_entry"

text \<open>
  \<^verbatim>\<open>requests.get(url, params=params)\<close>: the request goes out and the service's answer
  comes back. The requests sent are kept as a multiset: the calls of a batch run on
  worker threads, and nothing fixes the order in which their requests go out.
\<close>

definition requests_get ::
  "collab \<Rightarrow> string \<Rightarrow> (string \<times> param_value) list \<Rightarrow> request multiset \<Rightarrow>
     (py_exception + response) \<times> request multiset" where
  "requests_get c u params sent =
     (let req = \<lparr>http_method = ''GET'', req_url = u, req_params = params\<rparr>
      in (respond c req, add_mset req sent))"

subsection \<open>Global names\<close>

text \<open>
  A free identifier in a function body is looked up in the module's globals when the
  body runs. Arrays are kept with their content; every other object is \<open>PyOther\<close>,
  and what the calls read of it is \<open>other_last\<close>.
\<close>

datatype pyval = PyArray ndarray | PyOther

type_synonym namespace = "string \<Rightarrow> pyval option"

text \<open>
  The names the notebook binds, cell by cell: its imports, its assignments, its
  function definitions and the targets of its \<^verbatim>\<open>with\<close> and \<^verbatim>\<open>for\<close> statements.
  \<^verbatim>\<open>%pylab inline\<close> binds \<^verbatim>\<open>numpy\<close>, \<^verbatim>\<open>matplotlib\<close>, \<^verbatim>\<open>pylab\<close>, \<^verbatim>\<open>mlab\<close>,
  \<^verbatim>\<open>pyplot\<close>, \<^verbatim>\<open>np\<close>, \<^verbatim>\<open>plt\<close>, \<^verbatim>\<open>display\<close>, \<^verbatim>\<open>figsize\<close> and \<^verbatim>\<open>getfigs\<close>, and
  then the public names of numpy and pylab, two libraries outside the notebook that
  export no name \<open>mask\<close>; nor is \<open>mask\<close> a Python builtin.
\<close>

definition notebook_names :: "string list" where
  "notebook_names =
     [''os'', ''json'', ''urllib'', ''BytesIO'', ''partial'', ''futures'', ''requests'',
      ''boto3_session'', ''reshape_as_image'', ''featureBounds'', ''tqdm'', ''Map'',
      ''basemaps'', ''TileLayer'', ''basemap_to_tiles'', ''numpy'', ''matplotlib'', ''pylab'',
      ''mlab'', ''pyplot'', ''np'', ''plt'', ''display'', ''figsize'', ''getfigs'',
      ''titiler_endpoint'', ''geojson'', ''bounds'', ''session'', ''client'', ''bucket'',
      ''list_objects'', ''files'', ''files_2019'', ''files_Oct5'', ''_url'', ''r'', ''m'',
      ''aod_layer'', ''_stats'', ''xmin'', ''ymin'', ''xmax'', ''ymax'', ''fetch_bbox'',
      ''_filter_futures'', ''files_15'', ''executor'', ''future_work'', ''f'', ''values'',
      ''dates'', ''fig'', ''ax1'']"

definition notebook_globals :: namespace where
  "notebook_globals = map_of (map (\<lambda>n. (n, PyOther)) notebook_names)"

subsection \<open>Indexing\<close>

text \<open>\<^verbatim>\<open>xs[i]\<close> on a list, for an index that is not negative.\<close>

definition getitem :: "'a list \<Rightarrow> nat \<Rightarrow> py_exception + 'a" where
  "getitem xs i =
     (if i < length xs then Inr (xs ! i) else Inl (IndexError ''list index out of range''))"

text \<open>
  \<^verbatim>\<open>a[0:-1]\<close> on an array: all but the last entry along the first axis; a
  zero-dimensional array has no axis to slice.
\<close>

definition getslice_0_m1 :: "ndarray \<Rightarrow> py_exception + ndarray" where
  "getslice_0_m1 a =
     (case shape a of
        [] \<Rightarrow> Inl (IndexError ''too many indices for array'')
      | n # rest \<Rightarrow>
          Inr (NDArray ((n - 1) # rest) (take ((n - 1) * prod_list rest) (flat a))))"

text \<open>\<^verbatim>\<open>a[-1]\<close> on an array: the last entry along the first axis.\<close>

definition getitem_m1 :: "ndarray \<Rightarrow> py_exception + ndarray" where
  "getitem_m1 a =
     (case shape a of
        [] \<Rightarrow> Inl (IndexError ''too many indices for array'')
      | n # rest \<Rightarrow>
          if n = 0 then Inl (IndexError ''index -1 is out of bounds for axis 0 with size 0'')
          else Inr (NDArray rest (drop ((n - 1) * prod_list rest) (flat a))))"

text \<open>\<^verbatim>\<open>v[-1]\<close> on a global value.\<close>

definition subscript_m1 :: "collab \<Rightarrow> pyval \<Rightarrow> py_exception + last_entry" where
  "subscript_m1 c v =
     (case v of
        PyArray a \<Rightarrow> (case getitem_m1 a of Inl e \<Rightarrow> Inl e | Inr b \<Rightarrow> Inr (ArrayEntry b))
      | PyOther \<Rightarrow> other_last c)"

text \<open>
  The \<^verbatim>\<open>mask\<close> argument as \<^verbatim>\<open>_stats\<close> uses it. For an object that is not an array
  \<^verbatim>\<open>mask == 0\<close> is one truth value, which the assignment to \<^verbatim>\<open>arr.mask\<close> gives to
  every sample, as it does for a zero-dimensional array.
\<close>

definition as_mask :: "last_entry \<Rightarrow> ndarray" where
  "as_mask l =
     (case l of
        ArrayEntry a \<Rightarrow> a
      | PlainEntry is_zero \<Rightarrow> NDArray [] [if is_zero then 0 else 1])"

text \<open>\<^verbatim>\<open>s.split(sep)\<close> for a one-character separator: at least one piece.\<close>

fun str_split :: "string \<Rightarrow> char \<Rightarrow> string list" where
  "str_split [] sep = [[]]"
| "str_split (c # cs) sep =
     (if c = sep then [] # str_split cs sep
      else (case str_split cs sep of
              [] \<Rightarrow> [[c]]
            | p # ps \<Rightarrow> (c # p) # ps))"

subsection \<open>The notebook's functions\<close>

text \<open>\<^verbatim>\<open>def _url(src_path): return f"s3://omi-no2-nasa/{src_path}"\<close>\<close>

definition url :: "string \<Rightarrow> string" where
  "url src_path = ''s3://omi-no2-nasa/'' @ src_path"

text \<open>
  Assigning a Boolean array to \<^verbatim>\<open>arr.mask\<close> writes it through the flat view of the
  mask: the values are repeated in order until the array is filled (a band-shaped mask
  is so applied to every value band); with no value to write the mask stays all False.
\<close>

definition cyclic_fill :: "nat \<Rightarrow> bool list \<Rightarrow> bool list" where
  "cyclic_fill n bs =
     (if bs = [] then replicate n False else map (\<lambda>i. bs ! (i mod length bs)) [0..<n])"

text \<open>
  \<^verbatim>\<open>_stats(data, mask)\<close>: a sample is hidden where \<^verbatim>\<open>mask == 0\<close>. The minimum and
  the maximum run over the samples that are not hidden; a reduction over no sample at
  all raises, and one over hidden samples only gives the masked constant, whose
  \<^verbatim>\<open>item()\<close> is 0.0. The tuple's mean and standard deviation are floating-point
  results that no caller reads (\<^verbatim>\<open>fetch_bbox\<close> takes \<^verbatim>\<open>s[1]\<close>), and they raise only
  where the minimum already has: the model returns (min, max).
\<close>

definition stats :: "ndarray \<Rightarrow> ndarray \<Rightarrow> py_exception + (real \<times> real)" where
  "stats data mask_band =
     (let hidden = cyclic_fill (length (flat data)) (map (\<lambda>v. v = 0) (flat mask_band));
          seen = map fst (filter (\<lambda>p. \<not> snd p) (zip (flat data) hidden))
      in if flat data = [] then
           Inl (ValueError ''zero-size array to reduction operation minimum which has no identity'')
         else if seen = [] then Inr (0, 0)
         else Inr (Min (set seen), Max (set seen)))"

text \<open>The request of \<^verbatim>\<open>fetch_bbox\<close>: its \<^verbatim>\<open>url\<close> f-string and its \<^verbatim>\<open>params\<close> dict.\<close>

definition crop_url :: string where
  "crop_url = titiler_endpoint @ ''cog/crop/'' @ py_str xmin @ '','' @ py_str ymin @ '','' @
              py_str xmax @ '','' @ py_str ymax @ ''.npy''"

definition crop_params :: "string \<Rightarrow> (string \<times> param_value) list" where
  "crop_params file = [(''url'', PStr (url file)), (''bidx'', PStr ''1''), (''max_size'', PInt 128)]"

text \<open>
  \<^verbatim>\<open>fetch_bbox(file)\<close>, statement by statement. The arguments of the call to
  \<^verbatim>\<open>_stats\<close> are evaluated left to right: the slice of \<^verbatim>\<open>data\<close>, then the global
  name \<^verbatim>\<open>mask\<close> and its last entry. \<open>g\<close> is the module's globals at the time of the
  call, \<open>c\<close> what lies outside, \<open>sent\<close> the requests sent so far.
\<close>

definition fetch_bbox ::
  "namespace \<Rightarrow> collab \<Rightarrow> string \<Rightarrow> request multiset \<Rightarrow>
     (py_exception + (real \<times> string)) \<times> request multiset" where
  "fetch_bbox g c file sent =
     (case requests_get c crop_url (crop_params file) sent of (reply, sent') \<Rightarrow>
        ((case reply of
            Inl e \<Rightarrow> Inl e
          | Inr r \<Rightarrow>
              (case numpy_load c (content r) of
                 Inl e \<Rightarrow> Inl e
               | Inr data \<Rightarrow>
                   (case getslice_0_m1 data of
                      Inl e \<Rightarrow> Inl e
                    | Inr bands \<Rightarrow>
                        (case g ''mask'' of
                           None \<Rightarrow> Inl (NameError ''mask'')
                         | Some mask_value \<Rightarrow>
                             (case subscript_m1 c mask_value of
                                Inl e \<Rightarrow> Inl e
                              | Inr last_band \<Rightarrow>
                                  (case stats bands (as_mask last_band) of
                                     Inl e \<Rightarrow> Inl e
                                   | Inr s \<Rightarrow>
                                       (case getitem (str_split file CHR ''_'') 2 of
                                          Inl e \<Rightarrow> Inl e
                                        | Inr label \<Rightarrow> Inr (snd s, label)))))))),
         sent'))"

subsection \<open>Futures and the cell that runs the batch\<close>

text \<open>
  A future that has finished: the value its call returned, or the exception it raised.
  \<^verbatim>\<open>future.result()\<close> returns the one and raises the other.
\<close>

datatype 'a future = Future (result: "py_exception + 'a")

text \<open>
  \<^verbatim>\<open>executor.submit(fn, file)\<close>: the pool runs \<open>fn file\<close> once and keeps its outcome
  in the future. The calls are independent: the outcome of one does not depend on
  when the others run, and the multiset of requests sent does not depend on their order.
\<close>

definition submit ::
  "(string \<Rightarrow> request multiset \<Rightarrow> (py_exception + 'a) \<times> request multiset) \<Rightarrow> string \<Rightarrow>
     request multiset \<Rightarrow> 'a future \<times> request multiset" where
  "submit fn file sent = (case fn file sent of (r, sent') \<Rightarrow> (Future r, sent'))"

text \<open>\<^verbatim>\<open>future_work = [executor.submit(fetch_bbox, file) for file in files]\<close>\<close>

fun submit_all ::
  "(string \<Rightarrow> request multiset \<Rightarrow> (py_exception + 'a) \<times> request multiset) \<Rightarrow> string list \<Rightarrow>
     request multiset \<Rightarrow> 'a future list \<times> request multiset" where
  "submit_all fn [] sent = ([], sent)"
| "submit_all fn (file # files) sent =
     (case submit fn file sent of (t, sent') \<Rightarrow>
        (case submit_all fn files sent' of (ts, sent'') \<Rightarrow> (t # ts, sent'')))"

text \<open>
  \<^verbatim>\<open>_filter_futures(tasks)\<close>: the generator walks \<open>tasks\<close> in list order, yields each
  result and passes over each exception.
\<close>

fun filter_futures :: "'a future list \<Rightarrow> 'a list" where
  "filter_futures [] = []"
| "filter_futures (future # tasks) =
     (case result future of
        Inr v \<Rightarrow> v # filter_futures tasks
      | Inl e \<Rightarrow> filter_futures tasks)"

text \<open>
  \<^verbatim>\<open>values, dates = zip(*pairs)\<close>: with pairs, \<^verbatim>\<open>zip\<close> gives the tuple of first
  entries and the tuple of second entries; with none it gives nothing, and the
  assignment to two names raises.
\<close>

definition unpack_zip :: "('a \<times> 'b) list \<Rightarrow> py_exception + ('a list \<times> 'b list)" where
  "unpack_zip pairs =
     (if pairs = [] then Inl (ValueError ''not enough values to unpack (expected 2, got 0)'')
      else Inr (map fst pairs, map snd pairs))"

text \<open>
  The pairs the cell drains: \<^verbatim>\<open>list(_filter_futures(future_work))\<close> after the
  \<^verbatim>\<open>with\<close> block (the loop over \<^verbatim>\<open>as_completed\<close> only waits and reports progress).
\<close>

definition collected ::
  "namespace \<Rightarrow> collab \<Rightarrow> string list \<Rightarrow> request multiset \<Rightarrow> (real \<times> string) list" where
  "collected g c files sent = filter_futures (fst (submit_all (fetch_bbox g c) files sent))"

text \<open>
  The cell from \<^verbatim>\<open>with futures.ThreadPoolExecutor(max_workers=...)\<close> to
  \<^verbatim>\<open>values, dates = zip(...)\<close>, which the spec calls fetch\_and\_aggregate. The pool's
  constructor rejects \<^verbatim>\<open>max_workers <= 0\<close>; the notebook passes 10 and 50.
\<close>

definition fetch_and_aggregate ::
  "namespace \<Rightarrow> collab \<Rightarrow> nat \<Rightarrow> string list \<Rightarrow> request multiset \<Rightarrow>
     (py_exception + (real list \<times> string list)) \<times> request multiset" where
  "fetch_and_aggregate g c max_workers files sent =
     (if max_workers = 0 then (Inl (ValueError ''max_workers must be greater than 0''), sent)
      else (case submit_all (fetch_bbox g c) files sent of (future_work, sent') \<Rightarrow>
              (unpack_zip (filter_futures future_work), sent')))"

text \<open>\<^verbatim>\<open>ax1.plot(dates, values)\<close>: the points in the order of the two tuples.\<close>

definition plotted :: "real list \<times> string list \<Rightarrow> (string \<times> real) list" where
  "plotted vd = zip (snd vd) (fst vd)"

text \<open>The label of a file, \<^verbatim>\<open>file.split("_")[2]\<close>, and the labels a batch can give.\<close>

definition label_of :: "string \<Rightarrow> py_exception + string" where
  "label_of file = getitem (str_split file CHR ''_'') 2"

definition derived_labels :: "string list \<Rightarrow> string list" where
  "derived_labels files = filter_futures (map (\<lambda>file. Future (label_of file)) files)"

text \<open>The request \<^verbatim>\<open>fetch_bbox\<close> sends for a file.\<close>

definition crop_request :: "string \<Rightarrow> request" where
  "crop_request file = \<lparr>http_method = ''GET'', req_url = crop_url, req_params = crop_params file\<rparr>"

subsection \<open>Reading a URL\<close>

text \<open>
  The host of \<^verbatim>\<open>scheme://host/path\<close> runs from the two slashes to the next slash,
  and the path starts at that slash.
\<close>

fun after_scheme :: "string \<Rightarrow> string" where
  "after_scheme (a # b # c # rest) =
     (if [a, b, c] = ''://'' then rest else after_scheme (b # c # rest))"
| "after_scheme cs = []"

definition url_host :: "string \<Rightarrow> string" where
  "url_host u = takeWhile (\<lambda>c. c \<noteq> CHR ''/'') (after_scheme u)"

definition url_path :: "string \<Rightarrow> string" where
  "url_path u = dropWhile (\<lambda>c. c \<noteq> CHR ''/'') (after_scheme u)"

subsection \<open>Concrete files, services and sessions\<close>

text \<open>File names of the bucket follow \<^verbatim>\<open>OMI-Aura_L3-OMNO2d_{YEAR}m{MONTH}{DAY}...\<close>.\<close>

definition file_jan :: string where "file_jan = ''OMI-Aura_L3-OMNO2d_2019m0115_v003.tif''"
definition file_feb :: string where "file_feb = ''OMI-Aura_L3-OMNO2d_2019m0215_v003.tif''"
definition file_mar :: string where "file_mar = ''OMI-Aura_L3-OMNO2d_2019m0315_v003.tif''"

definition npy_reply :: response where
  "npy_reply = \<lparr>status_code = 200, content = ''npy''\<rparr>"

text \<open>
  A service that answers every request, with a body that decodes to one value band
  (5, 7) and a mask band (1, 0).
\<close>

definition stub_ok :: collab where
  "stub_ok = \<lparr>respond = (\<lambda>req. Inr npy_reply),
              numpy_load = (\<lambda>body. Inr (NDArray [2, 1, 2] [5, 7, 1, 0])),
              other_last = Inl (TypeError ''object is not subscriptable'')\<rparr>"

text \<open>A service that cannot be reached.\<close>

definition stub_down :: collab where
  "stub_down = \<lparr>respond = (\<lambda>req. Inl (RequestException ''connection refused'')),
                numpy_load = (\<lambda>body. Inl (ValueError ''cannot load file'')),
                other_last = Inl (TypeError ''object is not subscriptable'')\<rparr>"

text \<open>A service that fails for the February file only.\<close>

definition stub_feb_down :: collab where
  "stub_feb_down =
     \<lparr>respond = (\<lambda>req. if req_params req = crop_params file_feb
                        then Inl (RequestException ''read timed out'') else Inr npy_reply),
      numpy_load = (\<lambda>body. Inr (NDArray [2, 1, 2] [5, 7, 1, 0])),
      other_last = Inl (TypeError ''object is not subscriptable'')\<rparr>"


text \<open>
  A session in which \<^verbatim>\<open>mask\<close> is bound to the notebook's \<^verbatim>\<open>bounds\<close>, a tuple of
  floats: its last entry is \<^verbatim>\<open>ymax\<close>, which is not 0.
\<close>

definition stub_plain_mask :: collab where
  "stub_plain_mask =
     \<lparr>respond = (\<lambda>req. Inr npy_reply),
      numpy_load = (\<lambda>body. Inr (NDArray [2, 1, 2] [5, 7, 1, 0])),
      other_last = Inr (PlainEntry False)\<rparr>"

definition session_with_plain_mask :: namespace where
  "session_with_plain_mask = notebook_globals(''mask'' \<mapsto> PyOther)"

text \<open>
  The notebook's globals after one more assignment, \<^verbatim>\<open>mask = <array>\<close>, that the
  notebook itself does not make: an array whose last entry is the band (1, 0).
\<close>

definition session_with_mask :: namespace where
  "session_with_mask = notebook_globals(''mask'' \<mapsto> PyArray (NDArray [1, 1, 2] [1, 0]))"

subsection \<open>The statistic as the specification words it\<close>

text \<open>
  The specification's statistic for an array [bands, height, width]: the maximum of the
  samples of the value bands (all bands but the last) at the positions where the last
  band is not 0. \<open>n\<close> is the size of a band, \<open>k\<close> the number of value samples;
  sample \<open>i\<close> of the value bands lies at position \<open>i mod n\<close> of its band. There is
  no statistic when no sample is picked.
\<close>

definition masked_max :: "ndarray \<Rightarrow> real option" where
  "masked_max d =
     (case shape d of
        [] \<Rightarrow> None
      | b # rest \<Rightarrow>
          (let n = prod_list rest; k = (b - 1) * n;
               picked = map (\<lambda>i. flat d ! i)
                          (filter (\<lambda>i. flat d ! (k + i mod n) \<noteq> 0) [0..<k])
           in if picked = [] then None else Some (Max (set picked))))"

section \<open>Basic facts\<close>

lemma bounds_value:
  "bounds = (PyFloat ''-74.1796875'' (- 74.1796875), PyFloat ''45.18978009667531'' 45.18978009667531,
             PyFloat ''-73.092041015625'' (- 73.092041015625), PyFloat ''46.00459325574482'' 46.00459325574482)"
  by (simp add: bounds_def featureBounds_def geojson_coordinates_def fmin_def fmax_def)

lemma crop_url_value:
  "crop_url = ''https://api.cogeo.xyzcog/crop/-74.1796875,45.18978009667531,-73.092041015625,46.00459325574482.npy''"
  by (simp add: crop_url_def titiler_endpoint_def xmin_def ymin_def xmax_def ymax_def bounds_value)

lemma window_ok_bounds: "window_ok bounds"
  by (simp add: bounds_value window_ok_def)

lemma notebook_mask_unbound: "notebook_globals ''mask'' = None"
  by (simp add: notebook_globals_def notebook_names_def)

text \<open>Each call sends one request, and its outcome does not depend on earlier requests.\<close>

lemma fetch_bbox_sent: "snd (fetch_bbox g c file sent) = add_mset (crop_request file) sent"
  by (simp add: fetch_bbox_def requests_get_def crop_request_def Let_def)

lemma fetch_bbox_outcome: "fst (fetch_bbox g c file sent) = fst (fetch_bbox g c file {#})"
  by (simp add: fetch_bbox_def requests_get_def Let_def)



lemma submit_all_fetch_bbox:
  "submit_all (fetch_bbox g c) files sent =
     (map (\<lambda>file. Future (fst (fetch_bbox g c file {#}))) files,
      sent + mset (map crop_request files))"
proof (induction files arbitrary: sent)
  case Nil
  show ?case by simp
next
  case (Cons f fs)
  have step: "fetch_bbox g c f sent = (fst (fetch_bbox g c f {#}), add_mset (crop_request f) sent)"
    using fetch_bbox_sent [of g c f sent] fetch_bbox_outcome [of g c f sent]
    by (metis prod.collapse)
  show ?case
    by (simp add: submit_def step Cons.IH)
qed


lemma length_filter_futures: "length (filter_futures ts) \<le> length ts"
  by (induction ts) (auto split: sum.splits)

lemma filter_futures_subseq: "subseq (map Inr (filter_futures ts)) (map result ts)"
  by (induction ts) (auto split: sum.splits)

lemma collected_eq:
  "collected g c files sent =
     filter_futures (map (\<lambda>file. Future (fst (fetch_bbox g c file {#}))) files)"
  by (simp add: collected_def submit_all_fetch_bbox)

lemma fetch_bbox_label:
  "fst (fetch_bbox g c file sent) = Inr (v, l) \<Longrightarrow> label_of file = Inr l"
  by (auto simp: fetch_bbox_def requests_get_def label_of_def Let_def split: sum.splits option.splits)

lemma fetch_bbox_notebook_raises:
  "\<exists>e. fst (fetch_bbox notebook_globals c file sent) = Inl e"
  by (auto simp: fetch_bbox_def requests_get_def notebook_mask_unbound Let_def split: sum.splits)

lemma collected_notebook_empty: "collected notebook_globals c files sent = []"
proof -
  have "filter_futures (map (\<lambda>file. Future (fst (fetch_bbox notebook_globals c file {#}))) fs) = []" for fs
  proof (induction fs)
    case Nil
    show ?case by simp
  next
    case (Cons f fs)
    obtain e where "fst (fetch_bbox notebook_globals c f {#}) = Inl e"
      using fetch_bbox_notebook_raises by blast
    with Cons show ?case by simp
  qed
  then show ?thesis by (simp add: collected_eq)
qed

lemma collected_Nil: "collected g c [] sent = []"
  by (simp add: collected_eq)

lemma collected_Cons:
  "collected g c (f # fs) sent =
     (case fst (fetch_bbox g c f {#}) of
        Inr p \<Rightarrow> p # collected g c fs sent
      | Inl e \<Rightarrow> collected g c fs sent)"
  by (simp add: collected_eq split: sum.splits)



text \<open>The cell in terms of the pairs it drains and the requests it sends.\<close>

lemma fetch_and_aggregate_eq:
  "fetch_and_aggregate g c max_workers files sent =
     (if max_workers = 0 then (Inl (ValueError ''max_workers must be greater than 0''), sent)
      else (unpack_zip (collected g c files sent), sent + mset (map crop_request files)))"
  by (simp add: fetch_and_aggregate_def submit_all_fetch_bbox collected_eq)

text \<open>With the notebook's own globals the cell raises for every batch.\<close>

lemma notebook_cell_raises:
  "0 < max_workers \<Longrightarrow>
   fst (fetch_and_aggregate notebook_globals c max_workers files sent) =
     Inl (ValueError ''not enough values to unpack (expected 2, got 0)'')"
  by (simp add: fetch_and_aggregate_eq collected_notebook_empty unpack_zip_def)

lemma unpack_zip_Inr:
  "unpack_zip ps = Inr (vs, ds) \<Longrightarrow> vs = map fst ps \<and> ds = map snd ps"
  by (auto simp: unpack_zip_def split: if_splits)

lemma derived_labels_Cons:
  "derived_labels (f # fs) =
     (case label_of f of Inr l \<Rightarrow> l # derived_labels fs | Inl e \<Rightarrow> derived_labels fs)"
  by (simp add: derived_labels_def split: sum.splits)

text \<open>The labels collected are labels of the files, in the order of the files.\<close>

lemma collected_labels_subseq:
  "subseq (map snd (collected g c files sent)) (derived_labels files)"
proof (induction files)
  case Nil
  show ?case by (simp add: collected_Nil derived_labels_def)
next
  case (Cons f fs)
  show ?case
  proof (cases "fst (fetch_bbox g c f {#})")
    case (Inl e)
    with Cons show ?thesis
      by (auto simp: collected_Cons derived_labels_Cons split: sum.splits)
  next
    case (Inr p)
    then have "label_of f = Inr (snd p)"
      using fetch_bbox_label [of g c f "{#}" "fst p" "snd p"] by simp
    with Inr Cons show ?thesis
      by (simp add: collected_Cons derived_labels_Cons)
  qed
qed

text \<open>
  The draining itself loses nothing: when every call returns, there is one pair per file
  and the labels are those of the files, in order.
\<close>

lemma all_calls_return_collects_all:
  assumes "list_all (\<lambda>f. \<exists>p. fst (fetch_bbox g c f {#}) = Inr p) files"
  shows "length (collected g c files sent) = length files \<and>
         map snd (collected g c files sent) = derived_labels files"
  using assms
proof (induction files)
  case Nil
  show ?case by (simp add: collected_Nil derived_labels_def)
next
  case (Cons f fs)
  then obtain p where p: "fst (fetch_bbox g c f {#}) = Inr p" by auto
  then have "label_of f = Inr (snd p)"
    using fetch_bbox_label [of g c f "{#}" "fst p" "snd p"] by simp
  with p Cons show ?case
    by (simp add: collected_Cons derived_labels_Cons)
qed

text \<open>When every call raises, nothing is collected and the unpacking raises.\<close>

lemma all_calls_fail_cell_raises:
  assumes "list_all (\<lambda>f. \<exists>e. fst (fetch_bbox g c f {#}) = Inl e) files" and "0 < max_workers"
  shows "collected g c files sent = [] \<and>
         fst (fetch_and_aggregate g c max_workers files sent) =
           Inl (ValueError ''not enough values to unpack (expected 2, got 0)'')"
proof -
  from assms(1) have "collected g c files sent = []"
  proof (induction files)
    case Nil
    show ?case by (simp add: collected_Nil)
  next
    case (Cons f fs)
    then obtain e where "fst (fetch_bbox g c f {#}) = Inl e" by auto
    with Cons show ?case by (simp add: collected_Cons)
  qed
  with assms(2) show ?thesis
    by (simp add: fetch_and_aggregate_eq unpack_zip_def)
qed

lemma subseq_set_mono: "subseq xs ys \<Longrightarrow> set xs \<subseteq> set ys"
  by (auto elim: list_emb_set)

lemma subseq_sorted: "subseq xs ys \<Longrightarrow> sorted ys \<Longrightarrow> sorted xs"
  by (auto simp: subseq_conv_nths sorted_nths)

subsection \<open>What \<^verbatim>\<open>_stats\<close> computes\<close>

lemma zip_with_index:
  "zip ys (map h [0..<length ys]) = map (\<lambda>i. (ys ! i, h i)) [0..<length ys]"
  by (rule nth_equalityI) auto

lemma seen_by_index:
  "map fst (filter (\<lambda>p. \<not> snd p) (zip ys (map h [0..<length ys]))) =
     map (\<lambda>i. ys ! i) (filter (\<lambda>i. \<not> h i) [0..<length ys])"
  by (simp add: zip_with_index filter_map comp_def)

text \<open>
  Given the value bands and the last band of one and the same array, \<^verbatim>\<open>_stats\<close>
  returns the specification's statistic as its maximum.
\<close>

lemma stats_on_own_last_band:
  assumes sh: "shape d = b # rest"
    and len: "length (flat d) = b * prod_list rest"
    and mm: "masked_max d = Some m"
  shows "\<exists>bands last_band lo.
           getslice_0_m1 d = Inr bands \<and> getitem_m1 d = Inr last_band \<and>
           stats bands last_band = Inr (lo, m)"
proof -
  define n where "n = prod_list rest"
  define k where "k = (b - 1) * n"
  define xs where "xs = flat d"
  define picked where
    "picked = map (\<lambda>i. xs ! i) (filter (\<lambda>i. xs ! (k + i mod n) \<noteq> 0) [0..<k])"
  from mm sh have picked: "picked \<noteq> []" and m: "m = Max (set picked)"
    by (auto simp: masked_max_def Let_def picked_def k_def n_def xs_def split: if_splits)
  from picked have kpos: "0 < k"
    by (cases "k = 0") (auto simp: picked_def)
  then have bpos: "0 < b - 1" and npos: "0 < n"
    by (auto simp: k_def)
  have lenxs: "length xs = k + n"
  proof -
    from bpos have "b = Suc (b - 1)" by simp
    then have "b * n = (b - 1) * n + n"
      by (metis add.commute mult_Suc)
    with len show ?thesis by (simp add: xs_def k_def n_def)
  qed
  define tk where "tk = take k xs"
  define dk where "dk = drop k xs"
  have lt: "length tk = k" using lenxs by (simp add: tk_def)
  have ld: "length dk = n" using lenxs by (simp add: dk_def)
  define h where "h = (\<lambda>i. map (\<lambda>v. v = 0) dk ! (i mod n))"
  have hid: "cyclic_fill (length tk) (map (\<lambda>v. v = 0) dk) = map h [0..<length tk]"
    using npos ld by (auto simp: cyclic_fill_def h_def)
  have hi: "h i = (xs ! (k + i mod n) = 0)" for i
    using npos ld lenxs by (simp add: h_def dk_def)
  have "map fst (filter (\<lambda>p. \<not> snd p) (zip tk (map h [0..<length tk]))) =
        map (\<lambda>i. tk ! i) (filter (\<lambda>i. \<not> h i) [0..<length tk])"
    by (rule seen_by_index)
  also have "\<dots> = map (\<lambda>i. tk ! i) (filter (\<lambda>i. xs ! (k + i mod n) \<noteq> 0) [0..<k])"
    by (simp add: lt hi)
  also have "\<dots> = picked"
    unfolding picked_def by (rule map_cong) (auto simp: tk_def)
  finally have seen: "map fst (filter (\<lambda>p. \<not> snd p)
      (zip tk (cyclic_fill (length tk) (map (\<lambda>v. v = 0) dk)))) = picked"
    by (simp only: hid)
  have ne: "tk \<noteq> []" using lt kpos by auto
  have st: "stats (NDArray ((b - 1) # rest) tk) (NDArray rest dk) =
      Inr (Min (set picked), Max (set picked))"
    using picked ne by (simp only: stats_def Let_def ndarray.sel seen if_False)
  have g1: "getslice_0_m1 d = Inr (NDArray ((b - 1) # rest) tk)"
    by (simp add: getslice_0_m1_def sh k_def n_def xs_def tk_def)
  have g2: "getitem_m1 d = Inr (NDArray rest dk)"
    using bpos by (simp add: getitem_m1_def sh k_def n_def xs_def dk_def)
  from g1 g2 st m show ?thesis by blast
qed

lemma masked_max_example: "masked_max (NDArray [2, 1, 2] [5, 7, 1, 0]) = Some 5"
  by (simp add: masked_max_def Let_def upt_conv_Cons)

subsection \<open>The concrete services and sessions, evaluated\<close>

lemma stats_example: "stats (NDArray [1, 1, 2] [5, 7]) (NDArray [1, 2] [1, 0]) = Inr (5, 5)"
  by (simp add: stats_def cyclic_fill_def upt_conv_Cons)

lemma fetch_bbox_notebook_stub_ok:
  "fetch_bbox notebook_globals stub_ok file {#} = (Inl (NameError ''mask''), {#crop_request file#})"
  by (simp add: stub_ok_def getslice_0_m1_def fetch_bbox_def
      requests_get_def crop_request_def Let_def notebook_mask_unbound)

lemma fetch_bbox_stub_down:
  "fst (fetch_bbox g stub_down file {#}) = Inl (RequestException ''connection refused'')"
  by (simp add: fetch_bbox_def requests_get_def Let_def stub_down_def)

lemma session_mask_value:
  "session_with_mask ''mask'' = Some (PyArray (NDArray [1, 1, 2] [1, 0]))"
  by (simp add: session_with_mask_def)

lemma label_jan: "getitem (str_split file_jan CHR ''_'') 2 = Inr ''2019m0115''"
  by (simp add: file_jan_def getitem_def)

lemma label_feb: "getitem (str_split file_feb CHR ''_'') 2 = Inr ''2019m0215''"
  by (simp add: file_feb_def getitem_def)

lemma label_mar: "getitem (str_split file_mar CHR ''_'') 2 = Inr ''2019m0315''"
  by (simp add: file_mar_def getitem_def)

lemma fetch_bbox_session:
  assumes "respond c \<lparr>http_method = ''GET'', req_url = crop_url, req_params = crop_params file\<rparr> = Inr npy_reply"
    and "numpy_load c ''npy'' = Inr (NDArray [2, 1, 2] [5, 7, 1, 0])"
    and "getitem (str_split file CHR ''_'') 2 = Inr l"
  shows "fst (fetch_bbox session_with_mask c file {#}) = Inr (5, l)"
  by (simp add: fetch_bbox_def requests_get_def Let_def assms npy_reply_def getslice_0_m1_def
      subscript_m1_def as_mask_def getitem_m1_def session_mask_value stats_def cyclic_fill_def
      upt_conv_Cons)

lemma crop_params_inject: "crop_params a = crop_params b \<longleftrightarrow> a = b"
  by (simp add: crop_params_def url_def)

lemma files_distinct: "file_jan \<noteq> file_feb" "file_mar \<noteq> file_feb" "file_jan \<noteq> file_mar"
  by (simp_all add: file_jan_def file_feb_def file_mar_def)

lemma session_feb_down_jan:
  "fst (fetch_bbox session_with_mask stub_feb_down file_jan {#}) = Inr (5, ''2019m0115'')"
  by (rule fetch_bbox_session)
    (simp_all add: stub_feb_down_def crop_params_inject files_distinct label_jan)

lemma session_feb_down_mar:
  "fst (fetch_bbox session_with_mask stub_feb_down file_mar {#}) = Inr (5, ''2019m0315'')"
  by (rule fetch_bbox_session)
    (simp_all add: stub_feb_down_def crop_params_inject files_distinct label_mar)

lemma session_feb_down_feb:
  "fst (fetch_bbox session_with_mask stub_feb_down file_feb {#}) =
     Inl (RequestException ''read timed out'')"
  by (simp add: fetch_bbox_def requests_get_def Let_def stub_feb_down_def)

lemma session_ok_jan: "fst (fetch_bbox session_with_mask stub_ok file_jan {#}) = Inr (5, ''2019m0115'')"
  by (rule fetch_bbox_session) (simp_all add: stub_ok_def label_jan)

lemma session_ok_feb: "fst (fetch_bbox session_with_mask stub_ok file_feb {#}) = Inr (5, ''2019m0215'')"
  by (rule fetch_bbox_session) (simp_all add: stub_ok_def label_feb)




text \<open>
  With \<^verbatim>\<open>mask\<close> bound to a tuple whose last entry is not 0, no sample is hidden and
  the call returns the maximum of the whole value band.
\<close>

lemma plain_mask_example:
  "fst (fetch_bbox session_with_plain_mask stub_plain_mask file_jan {#}) = Inr (7, ''2019m0115'')"
  by (simp add: fetch_bbox_def requests_get_def Let_def stub_plain_mask_def npy_reply_def
      getslice_0_m1_def subscript_m1_def as_mask_def session_with_plain_mask_def stats_def
      cyclic_fill_def upt_conv_Cons label_jan)

lemma session_feb_down_collected:
  "collected session_with_mask stub_feb_down [file_jan, file_feb, file_mar] {#} =
     [(5, ''2019m0115''), (5, ''2019m0315'')]"
  by (simp add: collected_Cons collected_Nil session_feb_down_jan session_feb_down_mar
      session_feb_down_feb)

lemma labels_jan_feb_mar:
  "derived_labels [file_jan, file_feb, file_mar] = [''2019m0115'', ''2019m0215'', ''2019m0315'']"
  by (simp add: derived_labels_Cons label_of_def label_jan label_feb label_mar derived_labels_def)

section \<open>The claims\<close>

text \<open>
  C1. The claim: for an item whose response decodes to an array [bands, height, width],
  the statistic recorded is the maximum of the value bands where the last band is not 0.
  What the code does for such an item: the service answers, the body decodes to one
  value band (5, 7) with the mask band (1, 0), for which the claim's statistic is 5,
  and \<^verbatim>\<open>_stats\<close> applied to the value bands and the array's own last band gives
  that maximum; but \<^verbatim>\<open>fetch_bbox\<close> reads the last entry of the unbound global
  \<open>mask\<close> instead and raises NameError: no statistic is recorded.
\<close>

theorem fetch_bbox_statistic_missing:
  "numpy_load stub_ok (content npy_reply) = Inr (NDArray [2, 1, 2] [5, 7, 1, 0]) \<and>
   masked_max (NDArray [2, 1, 2] [5, 7, 1, 0]) = Some 5 \<and>
   getslice_0_m1 (NDArray [2, 1, 2] [5, 7, 1, 0]) = Inr (NDArray [1, 1, 2] [5, 7]) \<and>
   getitem_m1 (NDArray [2, 1, 2] [5, 7, 1, 0]) = Inr (NDArray [1, 2] [1, 0]) \<and>
   stats (NDArray [1, 1, 2] [5, 7]) (NDArray [1, 2] [1, 0]) = Inr (5, 5) \<and>
   fetch_bbox notebook_globals stub_ok file_jan {#} = (Inl (NameError ''mask''), {#crop_request file_jan#})"
proof (intro conjI)
  show "numpy_load stub_ok (content npy_reply) = Inr (NDArray [2, 1, 2] [5, 7, 1, 0])"
    by (simp add: stub_ok_def)
  show "masked_max (NDArray [2, 1, 2] [5, 7, 1, 0]) = Some 5"
    by (rule masked_max_example)
  show "getslice_0_m1 (NDArray [2, 1, 2] [5, 7, 1, 0]) = Inr (NDArray [1, 1, 2] [5, 7])"
    by (simp add: getslice_0_m1_def)
  show "getitem_m1 (NDArray [2, 1, 2] [5, 7, 1, 0]) = Inr (NDArray [1, 2] [1, 0])"
    by (simp add: getitem_m1_def)
  show "stats (NDArray [1, 1, 2] [5, 7]) (NDArray [1, 2] [1, 0]) = Inr (5, 5)"
    by (rule stats_example)
  show "fetch_bbox notebook_globals stub_ok file_jan {#} =
          (Inl (NameError ''mask''), {#crop_request file_jan#})"
    by (rule fetch_bbox_notebook_stub_ok)
qed

text \<open>
  C2. The notebook binds the name \<open>mask\<close> nowhere, so every call of \<^verbatim>\<open>fetch_bbox\<close>
  ends in an exception and never in a (statistic, label) pair: whatever the service
  answers, and for every file. When the response arrives and decodes to an array with
  at least one axis, the exception is the NameError for \<open>mask\<close>. The cell therefore
  collects no pair at all, however many requests succeed.
\<close>

theorem fetch_bbox_never_returns:
  "notebook_globals ''mask'' = None \<and>
   (\<exists>e. fst (fetch_bbox notebook_globals c file sent) = Inl e) \<and>
   (respond c (crop_request file) = Inr r \<and> numpy_load c (content r) = Inr d \<and> shape d \<noteq> []
      \<longrightarrow> fst (fetch_bbox notebook_globals c file sent) = Inl (NameError ''mask'')) \<and>
   collected notebook_globals c files sent = []"
proof -
  have "fst (fetch_bbox notebook_globals c file sent) = Inl (NameError ''mask'')"
    if "respond c (crop_request file) = Inr r" "numpy_load c (content r) = Inr d" "shape d \<noteq> []"
    using that
    by (auto simp: fetch_bbox_def requests_get_def crop_request_def getslice_0_m1_def Let_def
        notebook_mask_unbound split: list.splits)
  then show ?thesis
    using notebook_mask_unbound fetch_bbox_notebook_raises collected_notebook_empty by blast
qed

theorem fetch_bbox_never_returns_witness:
  "respond stub_ok (crop_request file_jan) = Inr npy_reply \<and>
   numpy_load stub_ok (content npy_reply) = Inr (NDArray [2, 1, 2] [5, 7, 1, 0]) \<and>
   shape (NDArray [2, 1, 2] [5, 7, 1, 0]) \<noteq> [] \<and>
   fst (fetch_bbox notebook_globals stub_ok file_jan {#}) = Inl (NameError ''mask'') \<and>
   collected notebook_globals stub_ok [file_jan, file_feb] {#} = []"
  using fetch_bbox_never_returns
    [of stub_ok file_jan "{#}" npy_reply "NDArray [2, 1, 2] [5, 7, 1, 0]" "[file_jan, file_feb]"]
  by (simp add: stub_ok_def)




text \<open>
  C4. The claim: when every request of a batch with items fails, the result is empty and
  no exception escapes. What the code does for two files and a service that cannot be
  reached: both calls raise, the collection drained is empty, and the unpacking of the
  empty \<^verbatim>\<open>zip\<close> into \<^verbatim>\<open>values, dates\<close> raises ValueError out of the cell, after both
  requests were sent.
\<close>

theorem all_failed_batch_raises:
  "fst (fetch_bbox notebook_globals stub_down file_jan {#}) = Inl (RequestException ''connection refused'') \<and>
   fst (fetch_bbox notebook_globals stub_down file_feb {#}) = Inl (RequestException ''connection refused'') \<and>
   collected notebook_globals stub_down [file_jan, file_feb] {#} = [] \<and>
   fetch_and_aggregate notebook_globals stub_down 10 [file_jan, file_feb] {#} =
     (Inl (ValueError ''not enough values to unpack (expected 2, got 0)''),
      {#crop_request file_jan, crop_request file_feb#})"
  by (simp add: collected_notebook_empty fetch_and_aggregate_eq unpack_zip_def fetch_bbox_stub_down)

text \<open>
  C5. The claim: when every request of a batch succeeds, the result has one pair per
  item. What the code does for two files and a service that answers both with a body
  that decodes: no pair is collected (each call stops at the unbound name \<open>mask\<close>), so
  the size is 0 and not 2, and the cell raises ValueError.
\<close>

theorem all_succeeded_batch_collects_nothing:
  "respond stub_ok (crop_request file_jan) = Inr npy_reply \<and>
   respond stub_ok (crop_request file_feb) = Inr npy_reply \<and>
   numpy_load stub_ok (content npy_reply) = Inr (NDArray [2, 1, 2] [5, 7, 1, 0]) \<and>
   collected notebook_globals stub_ok [file_jan, file_feb] {#} = [] \<and>
   length (collected notebook_globals stub_ok [file_jan, file_feb] {#}) \<noteq> length [file_jan, file_feb] \<and>
   fst (fetch_and_aggregate notebook_globals stub_ok 10 [file_jan, file_feb] {#}) =
     Inl (ValueError ''not enough values to unpack (expected 2, got 0)'')"
  by (simp add: collected_notebook_empty fetch_and_aggregate_eq unpack_zip_def stub_ok_def)

text \<open>
  C6. For every batch, every service and every binding of the globals, the pairs drained
  are at most as many as the files, and their labels are among the labels derived from
  the files; when the cell returns its two tuples, they have the same length, at most
  the number of files, and the dates are among the derived labels.
\<close>

theorem collected_within_items:
  "length (collected g c files sent) \<le> length files \<and>
   set (map snd (collected g c files sent)) \<subseteq> set (derived_labels files) \<and>
   (fst (fetch_and_aggregate g c max_workers files sent) = Inr (vs, ds) \<longrightarrow>
      length vs = length ds \<and> length vs \<le> length files \<and> set ds \<subseteq> set (derived_labels files))"
proof -
  have len: "length (collected g c files sent) \<le> length files"
    using length_filter_futures [of "map (\<lambda>file. Future (fst (fetch_bbox g c file {#}))) files"]
    by (simp add: collected_eq)
  have sub: "set (map snd (collected g c files sent)) \<subseteq> set (derived_labels files)"
    by (rule subseq_set_mono) (rule collected_labels_subseq)
  have "length vs = length ds \<and> length vs \<le> length files \<and> set ds \<subseteq> set (derived_labels files)"
    if "fst (fetch_and_aggregate g c max_workers files sent) = Inr (vs, ds)"
  proof -
    from that have "unpack_zip (collected g c files sent) = Inr (vs, ds)"
      by (auto simp: fetch_and_aggregate_eq split: if_splits)
    then have "vs = map fst (collected g c files sent)" "ds = map snd (collected g c files sent)"
      by (auto dest: unpack_zip_Inr)
    with len sub show ?thesis by simp
  qed
  with len sub show ?thesis by blast
qed

theorem collected_within_items_witness:
  "fst (fetch_and_aggregate session_with_mask stub_feb_down 10 [file_jan, file_feb, file_mar] {#}) =
     Inr ([5, 5], [''2019m0115'', ''2019m0315'']) \<and>
   length (collected session_with_mask stub_feb_down [file_jan, file_feb, file_mar] {#}) \<le> 3 \<and>
   derived_labels [file_jan, file_feb, file_mar] = [''2019m0115'', ''2019m0215'', ''2019m0315''] \<and>
   set [''2019m0115'', ''2019m0315''] \<subseteq> set (derived_labels [file_jan, file_feb, file_mar])"
proof -
  have agg: "fst (fetch_and_aggregate session_with_mask stub_feb_down 10 [file_jan, file_feb, file_mar] {#}) =
      Inr ([5, 5], [''2019m0115'', ''2019m0315''])"
    by (simp add: fetch_and_aggregate_eq session_feb_down_collected unpack_zip_def)
  from collected_within_items
    [of session_with_mask stub_feb_down "[file_jan, file_feb, file_mar]" "{#}" 10
        "[5, 5]" "[''2019m0115'', ''2019m0315'']"] agg labels_jan_feb_mar
  show ?thesis by simp
qed

text \<open>
  C7. The claim: the request is a GET whose path is
  \<^verbatim>\<open>/cog/crop/{minx},{miny},{maxx},{maxy}.{format}\<close>, with the query parameters
  \<open>url\<close>, \<open>bidx\<close> and \<open>max_size\<close> = 128. What the code sends: a GET with exactly those
  three parameters, to a URL in which no slash separates the endpoint from
  \<^verbatim>\<open>cog/crop\<close>: the host reads \<^verbatim>\<open>api.cogeo.xyzcog\<close> and the path starts with
  \<^verbatim>\<open>/crop/\<close>. The notebook's other requests put the slash
  (\<^verbatim>\<open>f"{titiler_endpoint}/cog/metadata"\<close>), and their path starts with \<^verbatim>\<open>/cog/\<close>.
\<close>

theorem crop_request_misses_slash:
  "snd (fetch_bbox g c file {#}) =
     {#\<lparr>http_method = ''GET'',
       req_url = ''https://api.cogeo.xyzcog/crop/-74.1796875,45.18978009667531,-73.092041015625,46.00459325574482.npy'',
       req_params = [(''url'', PStr (''s3://omi-no2-nasa/'' @ file)), (''bidx'', PStr ''1''),
                     (''max_size'', PInt 128)]\<rparr>#} \<and>
   url_host crop_url = ''api.cogeo.xyzcog'' \<and>
   url_path crop_url = ''/crop/-74.1796875,45.18978009667531,-73.092041015625,46.00459325574482.npy'' \<and>
   url_path (titiler_endpoint @ ''/cog/metadata'') = ''/cog/metadata''"
  by (simp add: fetch_bbox_sent crop_request_def crop_params_def url_def crop_url_value
      url_host_def url_path_def titiler_endpoint_def)

text \<open>
  C8. The claim: the collection has no order guarantee, and the series plotted is put in
  order by a sort on the label after collection. Against it: \<^verbatim>\<open>_filter_futures\<close>
  walks the futures in list order, and what is plotted is the two tuples unpacked
  from that collection as they are. For futures holding February, a failure and January
  in that order, the series plotted is February, January: not in order of label.
\<close>

theorem plot_order_counterexample:
  "filter_futures [Future (Inr (2, ''2019m0215'')), Future (Inl (RequestException ''read timed out'')),
                   Future (Inr (1, ''2019m0115''))] = [(2, ''2019m0215''), (1, ''2019m0115'')] \<and>
   unpack_zip [(2::real, ''2019m0215''), (1, ''2019m0115'')] =
     Inr ([2, 1], [''2019m0215'', ''2019m0115'']) \<and>
   plotted ([2, 1], [''2019m0215'', ''2019m0115'']) = [(''2019m0215'', 2), (''2019m0115'', 1)] \<and>
   \<not> sorted (map fst (plotted ([2, 1], [''2019m0215'', ''2019m0115''])))"
  by (simp add: unpack_zip_def plotted_def)

text \<open>
  C8, as the code has it. The pairs drained are in the order of the futures, which is
  the order of submission, the order of the files: the results are a subsequence of the
  futures' outcomes, and the labels collected a subsequence of the files' labels. No
  sort takes place: what is plotted is the collection, pair by pair, in that order. So
  the series is in order of label whenever the labels of the files are.
\<close>

theorem series_in_submission_order:
  "subseq (map Inr (filter_futures tasks)) (map result tasks) \<and>
   subseq (map snd (collected g c files sent)) (derived_labels files) \<and>
   (fst (fetch_and_aggregate g c max_workers files sent) = Inr vd \<longrightarrow>
      plotted vd = map (\<lambda>p. (snd p, fst p)) (collected g c files sent)) \<and>
   (sorted (derived_labels files) \<longrightarrow> sorted (map snd (collected g c files sent)))"
proof -
  have "plotted vd = map (\<lambda>p. (snd p, fst p)) (collected g c files sent)"
    if "fst (fetch_and_aggregate g c max_workers files sent) = Inr vd"
  proof -
    from that have "unpack_zip (collected g c files sent) = Inr (fst vd, snd vd)"
      by (auto simp: fetch_and_aggregate_eq split: if_splits)
    then have "fst vd = map fst (collected g c files sent) \<and>
               snd vd = map snd (collected g c files sent)"
      by (rule unpack_zip_Inr)
    then show ?thesis
      by (simp add: plotted_def zip_map_map zip_same_conv_map)
  qed
  moreover have "sorted (map snd (collected g c files sent))" if "sorted (derived_labels files)"
    using collected_labels_subseq that by (rule subseq_sorted)
  ultimately show ?thesis
    using filter_futures_subseq collected_labels_subseq by blast
qed

theorem series_in_submission_order_witness:
  "fst (fetch_and_aggregate session_with_mask stub_ok 10 [file_feb, file_jan] {#}) =
     Inr ([5, 5], [''2019m0215'', ''2019m0115'']) \<and>
   plotted ([5, 5], [''2019m0215'', ''2019m0115'']) = [(''2019m0215'', 5), (''2019m0115'', 5)] \<and>
   collected session_with_mask stub_ok [file_feb, file_jan] {#} =
     [(5, ''2019m0215''), (5, ''2019m0115'')] \<and>
   sorted (derived_labels [file_jan, file_feb, file_mar]) \<and>
   sorted (map snd (collected session_with_mask stub_feb_down [file_jan, file_feb, file_mar] {#}))"
proof -
  have col: "collected session_with_mask stub_ok [file_feb, file_jan] {#} =
      [(5, ''2019m0215''), (5, ''2019m0115'')]"
    by (simp add: collected_Cons collected_Nil session_ok_jan session_ok_feb)
  have agg: "fst (fetch_and_aggregate session_with_mask stub_ok 10 [file_feb, file_jan] {#}) =
     Inr ([5, 5], [''2019m0215'', ''2019m0115''])"
    by (simp add: fetch_and_aggregate_eq col unpack_zip_def)
  have srt: "sorted (derived_labels [file_jan, file_feb, file_mar])"
    by (simp add: labels_jan_feb_mar)
  from series_in_submission_order
    [of "[]" session_with_mask stub_ok "[file_feb, file_jan]" "{#}" 10
        "([5, 5], [''2019m0215'', ''2019m0115''])"]
    agg col
  have p: "plotted ([5, 5], [''2019m0215'', ''2019m0115'']) = [(''2019m0215'', 5), (''2019m0115'', 5)]"
    by simp
  from series_in_submission_order
    [of "[]" session_with_mask stub_feb_down "[file_jan, file_feb, file_mar]" "{#}" 10 "([], [])"] srt
  have "sorted (map snd (collected session_with_mask stub_feb_down [file_jan, file_feb, file_mar] {#}))"
    by blast
  with agg col srt p show ?thesis by simp
qed

text \<open>
  C9. The claim: an invalid input (no items, a malformed window) is reported before any
  work is scheduled, and that is the only way the batch as a whole fails. What the code
  does: the window is the notebook's \<^verbatim>\<open>bounds\<close>, which is well-formed, and for the
  empty batch the cell does raise with no request sent. But a batch with an item fails
  as a whole too, after the item's request was sent: the unpacking of the empty
  \<^verbatim>\<open>zip\<close> raises, whether the service cannot be reached or answers.
\<close>

theorem valid_batch_fails_as_a_whole:
  "window_ok bounds \<and> [file_jan] \<noteq> [] \<and>
   fetch_and_aggregate notebook_globals stub_down 10 [file_jan] {#} =
     (Inl (ValueError ''not enough values to unpack (expected 2, got 0)''), {#crop_request file_jan#}) \<and>
   fetch_and_aggregate notebook_globals stub_ok 10 [file_jan] {#} =
     (Inl (ValueError ''not enough values to unpack (expected 2, got 0)''), {#crop_request file_jan#}) \<and>
   fetch_and_aggregate notebook_globals stub_down 10 [] {#} =
     (Inl (ValueError ''not enough values to unpack (expected 2, got 0)''), {#})"
  by (simp add: window_ok_bounds collected_notebook_empty fetch_and_aggregate_eq unpack_zip_def)

end
